theory Spec2Isabelle
  imports Main "HOL-Library.Word" "HOL-Library.Log_Nat"
begin

unbundle bit_operations_syntax

section \<open>Python exceptions as values\<close>

text \<open>
  Every \<^verbatim>\<open>raise\<close> of the source and every exception raised by a numpy or builtin
  operation the source calls is a value of this type; a function that may raise returns
  \<open>py_error + 'a\<close>, with \<open>Inl\<close> for the exception.
\<close>

datatype py_error =
    RuntimeError | IndexError | ValueError | KeyError | AttributeError
  | OverflowError | TypeError | NotImplementedError

section \<open>ptu\_format.py: the TTTR record decoders\<close>

type_synonym u32 = "32 word"

subsection \<open>The per-record decoders\<close>

text \<open>
  \<^verbatim>\<open>read_T2_record\<close> formats the record as 32 binary digits and cuts the fields
  \<^verbatim>\<open>[0:1]\<close>, \<^verbatim>\<open>[1:7]\<close> and \<^verbatim>\<open>[7:32]\<close> out of the string. On a 32-bit value these are
  bit 31, bits 25 to 30 and bits 0 to 24.
\<close>

definition rec_special :: "u32 \<Rightarrow> nat" where
  "rec_special r = unat (drop_bit 31 r)"

definition rec_channel :: "u32 \<Rightarrow> nat" where
  "rec_channel r = unat (drop_bit 25 r AND 0x3F)"

definition rec_timetag :: "u32 \<Rightarrow> nat" where
  "rec_timetag r = unat (r AND 0x1FFFFFF)"

definition rec_dtime :: "u32 \<Rightarrow> nat" where
  "rec_dtime r = unat (drop_bit 10 r AND 0x7FFF)"

definition rec_nsync :: "u32 \<Rightarrow> nat" where
  "rec_nsync r = unat (r AND 0x3FF)"

definition read_T2_record :: "u32 \<Rightarrow> py_error + (string \<times> nat \<times> nat)" where
  "read_T2_record r =
     (let special = rec_special r; channel = rec_channel r; timetag = rec_timetag r in
      if special = 1 then
        if channel = 0x3F then Inr (''overflow'', 0, timetag)
        else if 15 \<ge> channel \<and> channel \<ge> 1 then Inr (''marker'', channel, timetag)
        else if channel = 0 then Inr (''sync'', 0, timetag)
        else Inl RuntimeError
      else Inr (''photon'', channel + 1, timetag))"

definition read_T3_record :: "u32 \<Rightarrow> py_error + (string \<times> nat \<times> nat \<times> nat)" where
  "read_T3_record r =
     (let special = rec_special r; channel = rec_channel r;
          dtime = rec_dtime r; nsync = rec_nsync r in
      if special = 1 then
        if channel = 0x3F then Inr (''overflow'', 0, dtime, nsync)
        else if 15 \<ge> channel \<and> channel \<ge> 1 then Inr (''marker'', channel, dtime, nsync)
        else Inl RuntimeError
      else Inr (''photon'', channel + 1, dtime, nsync))"

subsection \<open>The vectorised buffer decoders\<close>

text \<open>
  A buffer is a numpy array of \<^verbatim>\<open>uint32\<close>, here a list of 32-bit words. The channel
  and the selector \<^verbatim>\<open>bit_selected\<close> are Python integers, hence \<open>int\<close>; Python's
  \<^verbatim>\<open>x << 25\<close> is multiplication by \<open>2 ^ 25\<close>, and \<^verbatim>\<open>+\<close> binds tighter than
  \<^verbatim>\<open><<\<close>, so \<^verbatim>\<open>0x80000000 + channel << 25\<close> is \<^verbatim>\<open>(0x80000000 + channel) << 25\<close>.
\<close>

definition T2_bit_selected :: "int \<Rightarrow> string \<Rightarrow> py_error + int" where
  "T2_bit_selected channel rtype =
     (if rtype = ''photon'' then Inr ((channel - 1) * 2 ^ 25)
      else if rtype = ''marker'' then Inr ((0x80000000 + channel) * 2 ^ 25)
      else if rtype = ''sync'' then Inr 0x80000000
      else Inl RuntimeError)"

definition T3_bit_selected :: "int \<Rightarrow> string \<Rightarrow> py_error + int" where
  "T3_bit_selected channel rtype =
     (if rtype = ''photon'' then Inr ((channel - 1) * 2 ^ 25)
      else if rtype = ''marker'' then Inr ((0x80000000 + channel) * 2 ^ 25)
      else Inl RuntimeError)"

text \<open>\<^verbatim>\<open>np.cumsum(xs, dtype='uint32')\<close>: the running sum, in 32-bit arithmetic.\<close>

fun cumsum_from :: "u32 \<Rightarrow> u32 list \<Rightarrow> u32 list" where
  "cumsum_from acc [] = []"
| "cumsum_from acc (x # xs) = (acc + x) # cumsum_from (acc + x) xs"

definition np_cumsum :: "u32 list \<Rightarrow> u32 list" where
  "np_cumsum xs = cumsum_from 0 xs"

text \<open>\<^verbatim>\<open>xs[mask]\<close> with a boolean mask of the same length.\<close>

definition mask_select :: "'a list \<Rightarrow> bool list \<Rightarrow> 'a list" where
  "mask_select xs msk = map fst (filter snd (zip xs msk))"

text \<open>\<^verbatim>\<open>xs[-1]\<close>: the last element, \<^verbatim>\<open>IndexError\<close> on an empty array.\<close>

definition np_last :: "'a list \<Rightarrow> py_error + 'a" where
  "np_last xs = (if xs = [] then Inl IndexError else Inr (last xs))"

text \<open>\<^verbatim>\<open>timetags * mask_overflows\<close>: a \<^verbatim>\<open>uint32\<close> array times a boolean array.\<close>

definition mul_mask :: "u32 list \<Rightarrow> bool list \<Rightarrow> u32 list" where
  "mul_mask xs msk = map (\<lambda>(x, b). if b then x else 0) (zip xs msk)"

definition read_T2_buffer ::
  "u32 list \<Rightarrow> int \<Rightarrow> string \<Rightarrow> py_error + (u32 list \<times> u32 list \<times> u32)" where
  "read_T2_buffer buffer channel rtype =
     (let bitmask_special = (0x80000000 :: u32);
          bitmask_channel = (0x7e000000 :: u32);
          bitmask_header = bitmask_special OR bitmask_channel;
          bitmask_timetag = (0x01ffffff :: u32);
          bit_overflow = (0xfe000000 :: u32) in
      case T2_bit_selected channel rtype of
        Inl e \<Rightarrow> Inl e
      | Inr bit_selected \<Rightarrow>
         (let header = map (\<lambda>r. r AND bitmask_header) buffer;
              mask_overflows = map (\<lambda>h. h = bit_overflow) header;
              mask_data = map (\<lambda>h. uint h = bit_selected) header;
              timetags = map (\<lambda>r. r AND bitmask_timetag) buffer;
              overflows_counts = np_cumsum (mul_mask timetags mask_overflows);
              n_overflows = mask_select overflows_counts mask_data;
              timetag = mask_select timetags mask_data in
          case np_last overflows_counts of
            Inl e \<Rightarrow> Inl e
          | Inr total_overflows \<Rightarrow> Inr (n_overflows, timetag, total_overflows)))"

definition read_T3_buffer ::
  "u32 list \<Rightarrow> int \<Rightarrow> string \<Rightarrow> py_error + (u32 list \<times> u32 list \<times> u32 list \<times> u32)" where
  "read_T3_buffer buffer channel rtype =
     (let bitmask_special = (0x80000000 :: u32);
          bitmask_channel = (0x7e000000 :: u32);
          bitmask_header = bitmask_special OR bitmask_channel;
          bitmask_dtime = (0x01fffc00 :: u32);
          bitmask_nsync = (0x000003ff :: u32);
          bit_overflow = (0xfe000000 :: u32) in
      case T3_bit_selected channel rtype of
        Inl e \<Rightarrow> Inl e
      | Inr bit_selected \<Rightarrow>
         (let header = map (\<lambda>r. r AND bitmask_header) buffer;
              mask_overflows = map (\<lambda>h. h = bit_overflow) header;
              mask_data = map (\<lambda>h. uint h = bit_selected) header;
              dtime = map (\<lambda>r. drop_bit 10 (r AND bitmask_dtime)) buffer;
              nsync = map (\<lambda>r. r AND bitmask_nsync) buffer;
              overflows_counts = np_cumsum (mul_mask nsync mask_overflows);
              n_overflows = mask_select overflows_counts mask_data;
              dtime' = mask_select dtime mask_data;
              nsync' = mask_select nsync mask_data in
          case np_last overflows_counts of
            Inl e \<Rightarrow> Inl e
          | Inr total_overflows \<Rightarrow> Inr (n_overflows, dtime', nsync', total_overflows)))"

section \<open>tttr\_result.py: the growable table\<close>

subsection \<open>Python slices and numpy slice assignment\<close>

text \<open>
  A slice bound \<open>i\<close> on a sequence of length \<open>n\<close>: a negative bound counts from the end,
  and every bound is clamped to \<open>[0, n]\<close>. \<^verbatim>\<open>xs[a:b]\<close> is empty when the stop is
  not after the start. \<^verbatim>\<open>xs[:b]\<close> is \<^verbatim>\<open>xs[0:b]\<close>.
\<close>

definition slice_bound :: "nat \<Rightarrow> int \<Rightarrow> nat" where
  "slice_bound n i = (if i < 0 then nat (int n + i) else min (nat i) n)"

definition py_slice :: "'a list \<Rightarrow> int \<Rightarrow> int \<Rightarrow> 'a list" where
  "py_slice xs a b =
     (let lo = slice_bound (length xs) a; hi = slice_bound (length xs) b
      in take (hi - lo) (drop lo xs))"

text \<open>
  \<^verbatim>\<open>xs[a:b] = vs\<close> on a one-dimensional numpy array: the value must have the length
  of the slice, or length one (it is then broadcast); anything else raises
  \<^verbatim>\<open>ValueError\<close>. The right-hand side is read before the array is written.
\<close>

definition np_setslice :: "'a list \<Rightarrow> int \<Rightarrow> int \<Rightarrow> 'a list \<Rightarrow> py_error + 'a list" where
  "np_setslice xs a b vs =
     (let lo = slice_bound (length xs) a; hi = slice_bound (length xs) b; n = hi - lo in
      if length vs = n then Inr (take lo xs @ vs @ drop (lo + n) xs)
      else if length vs = 1 then Inr (take lo xs @ replicate n (hd vs) @ drop (lo + n) xs)
      else Inl ValueError)"

subsection \<open>ExtendableTable\<close>

text \<open>
  The table of the channel results: one-dimensional (\<^verbatim>\<open>ndim=None\<close>) with an integer
  dtype. \<open>p_data\<close> is the private array \<^verbatim>\<open>__data\<close>, whose length is the capacity, and
  \<open>p_size\<close> is \<^verbatim>\<open>_size\<close>. Elements are \<open>int\<close>: the casts numpy makes when a value
  does not fit the dtype are outside the model. \<^verbatim>\<open>np.empty\<close> leaves the new array
  uninitialised; the model fills it with zeros, and no statement below reads a slot
  that was not written. \<^verbatim>\<open>int(np.ceil(np.log2(n)))\<close> is \<open>ceillog2 n\<close>, the exact
  value, which the floating-point computation returns on every size a machine can hold.
\<close>

record ExtendableTable =
  p_data :: "int list"
  p_size :: int

definition ExtendableTable_init :: ExtendableTable where
  "ExtendableTable_init = \<lparr>p_data = replicate 0x100 0, p_size = 0\<rparr>"

definition capacity :: "'a ExtendableTable_scheme \<Rightarrow> int" where
  "capacity t = int (length (p_data t))"

definition inner_resize ::
  "int \<Rightarrow> 'a ExtendableTable_scheme \<Rightarrow> py_error + 'a ExtendableTable_scheme" where
  "inner_resize new_size t =
     (if new_size \<ge> capacity t then
        if new_size \<le> 0 then Inl OverflowError
        else
          (let new_capacity = 2 ^ ceillog2 (nat new_size);
               newdata = replicate new_capacity (0 :: int) in
           case np_setslice newdata 0 (p_size t) (py_slice (p_data t) 0 (p_size t)) of
             Inl e \<Rightarrow> Inl e
           | Inr newdata' \<Rightarrow> Inr (t\<lparr>p_data := newdata'\<rparr>))
      else Inr t)"

definition add ::
  "int list \<Rightarrow> 'a ExtendableTable_scheme \<Rightarrow> py_error + 'a ExtendableTable_scheme" where
  "add d t =
     (let new_size = p_size t + int (length d) in
      case inner_resize new_size t of
        Inl e \<Rightarrow> Inl e
      | Inr t1 \<Rightarrow>
         (case np_setslice (p_data t1) (p_size t1) new_size d of
            Inl e \<Rightarrow> Inl e
          | Inr arr \<Rightarrow> Inr (t1\<lparr>p_data := arr, p_size := new_size\<rparr>)))"

definition len :: "'a ExtendableTable_scheme \<Rightarrow> int" where
  "len t = p_size t"

definition data :: "'a ExtendableTable_scheme \<Rightarrow> int list" where
  "data t = py_slice (p_data t) 0 (p_size t)"

definition remove ::
  "int \<Rightarrow> 'a ExtendableTable_scheme \<Rightarrow> py_error + 'a ExtendableTable_scheme" where
  "remove nremove t =
     (let new_size = p_size t - nremove in
      case np_setslice (p_data t) 0 new_size (py_slice (p_data t) nremove (p_size t)) of
        Inl e \<Rightarrow> Inl e
      | Inr arr \<Rightarrow> Inr (t\<lparr>p_data := arr, p_size := new_size\<rparr>))"

text \<open>Sequences of calls on a table; the first exception ends the run.\<close>

datatype table_op = Add "int list" | Remove int

fun table_step :: "table_op \<Rightarrow> ExtendableTable \<Rightarrow> py_error + ExtendableTable" where
  "table_step (Add d) t = add d t"
| "table_step (Remove n) t = remove n t"

fun table_run :: "table_op list \<Rightarrow> ExtendableTable \<Rightarrow> py_error + ExtendableTable" where
  "table_run [] t = Inr t"
| "table_run (x # ops) t =
     (case table_step x t of Inl e \<Rightarrow> Inl e | Inr t' \<Rightarrow> table_run ops t')"

text \<open>
  The invariant of the specification: the capacity is a power of two, it is at least the
  size, and the elements at the indices \<open>0 \<le> i < size\<close> are what \<^verbatim>\<open>data\<close> returns.
\<close>

definition table_inv :: "ExtendableTable \<Rightarrow> bool" where
  "table_inv t \<longleftrightarrow>
     (\<exists>k \<le> length (p_data t). length (p_data t) = 2 ^ k) \<and>
     p_size t \<le> capacity t \<and>
     data t = map (\<lambda>i. p_data t ! i) [0 ..< nat (p_size t)]"

text \<open>An operation within its contract: \<^verbatim>\<open>remove(n)\<close> takes away \<open>0 \<le> n \<le> size\<close> elements.\<close>

fun op_in_range :: "table_op \<Rightarrow> ExtendableTable \<Rightarrow> bool" where
  "op_in_range (Add d) t = True"
| "op_in_range (Remove n) t = (0 \<le> n \<and> n \<le> p_size t)"

fun ops_in_range :: "table_op list \<Rightarrow> ExtendableTable \<Rightarrow> bool" where
  "ops_in_range [] t = True"
| "ops_in_range (x # ops) t =
     (op_in_range x t \<and>
      (case table_step x t of Inl e \<Rightarrow> True | Inr t' \<Rightarrow> ops_in_range ops t'))"

subsection \<open>binnableTable\<close>

record binnableTable = ExtendableTable +
  p_bin_factor :: "int option"
  p_bin_read_position :: int
  p_bin_counts :: "int list"
  p_only_bin :: bool

definition binnableTable_init :: "int option \<Rightarrow> bool \<Rightarrow> binnableTable" where
  "binnableTable_init bin_factor only_bin =
     \<lparr>p_data = replicate 0x100 0, p_size = 0,
      p_bin_factor = bin_factor, p_bin_read_position = 0,
      p_bin_counts = [], p_only_bin = only_bin\<rparr>"

text \<open>
  \<^verbatim>\<open>np.bincount(xs)\<close>: \<^verbatim>\<open>ValueError\<close> on a negative element; otherwise the number of
  occurrences of each \<open>i\<close> from 0 to the maximum, and the empty array for no input.
\<close>

definition np_bincount :: "int list \<Rightarrow> py_error + int list" where
  "np_bincount xs =
     (if list_ex (\<lambda>x. x < 0) xs then Inl ValueError
      else if xs = [] then Inr []
      else Inr (map (\<lambda>i. int (count_list xs (int i))) [0 ..< Suc (nat (fold max xs 0))]))"

text \<open>
  \<^verbatim>\<open>bin_count[:len(old)] += old\<close>: the view \<^verbatim>\<open>bin_count[:len(old)]\<close> is as long as
  \<open>old\<close> only when \<open>bin_count\<close> is at least that long. numpy adds in place when the
  shapes agree or \<open>old\<close> has length one, and raises \<^verbatim>\<open>ValueError\<close> otherwise.
\<close>

definition np_iadd_prefix :: "int list \<Rightarrow> int list \<Rightarrow> py_error + int list" where
  "np_iadd_prefix bin_count old =
     (let view = py_slice bin_count 0 (int (length old)) in
      if length old = length view then
        Inr (map (\<lambda>(x, y). x + y) (zip view old) @ drop (length view) bin_count)
      else if length old = 1 then
        Inr (map (\<lambda>x. x + hd old) view @ drop (length view) bin_count)
      else Inl ValueError)"

text \<open>
  \<^verbatim>\<open>bin_count\<close> returns the counts and the updated table. numpy's \<^verbatim>\<open>//\<close> on integers
  rounds down and gives 0 for a zero divisor, as \<open>div\<close> does.
\<close>

definition bin_count :: "binnableTable \<Rightarrow> py_error + (int list \<times> binnableTable)" where
  "bin_count t =
     (case p_bin_factor t of
        None \<Rightarrow> Inl RuntimeError
      | Some bin_factor \<Rightarrow>
         (let newpos = p_size t in
          if newpos = p_bin_read_position t then Inr (p_bin_counts t, t)
          else
            (let timetags = py_slice (data t) (p_bin_read_position t) newpos;
                 timetags' = map (\<lambda>x. x div bin_factor) timetags in
             case np_bincount timetags' of
               Inl e \<Rightarrow> Inl e
             | Inr bc \<Rightarrow>
                (case np_iadd_prefix bc (p_bin_counts t) of
                   Inl e \<Rightarrow> Inl e
                 | Inr bc' \<Rightarrow>
                    (let t1 = t\<lparr>p_bin_counts := bc'\<rparr> in
                     if p_only_bin t1 then
                       (case remove newpos t1 of
                          Inl e \<Rightarrow> Inl e
                        | Inr t2 \<Rightarrow> Inr (bc', t2\<lparr>p_bin_read_position := 0\<rparr>))
                     else Inr (bc', t1\<lparr>p_bin_read_position := newpos\<rparr>))))))"

definition set_bin_factor :: "int option \<Rightarrow> binnableTable \<Rightarrow> py_error + binnableTable" where
  "set_bin_factor bin_factor t =
     (if p_only_bin t then Inl NotImplementedError
      else Inr (t\<lparr>p_bin_factor := bin_factor, p_bin_read_position := 0, p_bin_counts := []\<rparr>))"

text \<open>The two ways of binning compared by the specification.\<close>

definition bin_incremental ::
  "binnableTable \<Rightarrow> int list \<Rightarrow> int list \<Rightarrow> py_error + int list" where
  "bin_incremental t xs ys =
     (case add xs t of Inl e \<Rightarrow> Inl e | Inr t1 \<Rightarrow>
       (case bin_count t1 of Inl e \<Rightarrow> Inl e | Inr (c1, t2) \<Rightarrow>
         (case add ys t2 of Inl e \<Rightarrow> Inl e | Inr t3 \<Rightarrow>
           (case bin_count t3 of Inl e \<Rightarrow> Inl e | Inr (c2, t4) \<Rightarrow> Inr c2))))"

definition bin_batch :: "binnableTable \<Rightarrow> int list \<Rightarrow> py_error + int list" where
  "bin_batch t zs =
     (case add zs t of Inl e \<Rightarrow> Inl e | Inr t1 \<Rightarrow>
       (case bin_count t1 of Inl e \<Rightarrow> Inl e | Inr (c, t2) \<Rightarrow> Inr c))"

section \<open>tttr\_result.py: the channel results\<close>

definition T2WRAPAROUND_V2 :: int where
  "T2WRAPAROUND_V2 = 0x2000000"

definition T3WRAPAROUND :: int where
  "T3WRAPAROUND = 0x400"

text \<open>
  \<^verbatim>\<open>T2Result.__init__\<close> computes the bin factor from two floating-point settings,
  \<^verbatim>\<open>int(1e12 * bin_time / global_resolution)\<close>, or takes \<^verbatim>\<open>None\<close> without a bin time;
  the model receives that value. The accumulator \<^verbatim>\<open>_n_overflows\<close> starts as the Python
  integer 0 and the decoded counts are widened to \<^verbatim>\<open>int64\<close> before they are used, so
  they are \<open>int\<close> here.
\<close>

record T2Result =
  t2_channel :: int
  t2_timetags :: binnableTable
  t2_n_overflows :: int

definition T2Result_init :: "int \<Rightarrow> int option \<Rightarrow> bool \<Rightarrow> T2Result" where
  "T2Result_init channel bin_factor only_bin =
     \<lparr>t2_channel = channel,
      t2_timetags = binnableTable_init bin_factor only_bin,
      t2_n_overflows = 0\<rparr>"

definition T2_add_buffer :: "u32 list \<Rightarrow> T2Result \<Rightarrow> py_error + T2Result" where
  "T2_add_buffer buffer r =
     (case read_T2_buffer buffer (t2_channel r) ''photon'' of
        Inl e \<Rightarrow> Inl e
      | Inr (n_overflows, timetag, total_overflows) \<Rightarrow>
         (let n_overflows' = map (\<lambda>n. t2_n_overflows r + uint n) n_overflows;
              stamps = map (\<lambda>(n, t). n * T2WRAPAROUND_V2 + uint t) (zip n_overflows' timetag) in
          case add stamps (t2_timetags r) of
            Inl e \<Rightarrow> Inl e
          | Inr tt \<Rightarrow>
              Inr (r\<lparr>t2_timetags := tt,
                     t2_n_overflows := t2_n_overflows r + uint total_overflows\<rparr>)))"

definition T2_timetags :: "T2Result \<Rightarrow> int list" where
  "T2_timetags r = data (t2_timetags r)"

fun T2_add_buffers :: "u32 list list \<Rightarrow> T2Result \<Rightarrow> py_error + T2Result" where
  "T2_add_buffers [] r = Inr r"
| "T2_add_buffers (b # bs) r =
     (case T2_add_buffer b r of Inl e \<Rightarrow> Inl e | Inr r' \<Rightarrow> T2_add_buffers bs r')"

text \<open>
  \<^verbatim>\<open>T3Result.__init__\<close> assigns \<^verbatim>\<open>global_resolution\<close>, \<^verbatim>\<open>resolution\<close>,
  \<^verbatim>\<open>_channel\<close>, \<^verbatim>\<open>_bin_time\<close>, \<^verbatim>\<open>_nsyncs\<close> and \<^verbatim>\<open>_dtimes\<close>, and nothing else: the
  attribute \<^verbatim>\<open>_n_overflows\<close> does not exist until \<^verbatim>\<open>add_buffer\<close> assigns it, and
  \<^verbatim>\<open>add_buffer\<close> reads it first. An attribute that may be missing is an \<open>option\<close>;
  reading a missing one raises \<^verbatim>\<open>AttributeError\<close>. The bin factor is
  \<^verbatim>\<open>int(1e9 * bin_time / global_resolution)\<close>, received as a value.
\<close>

record T3Result =
  t3_channel :: int
  t3_nsyncs :: binnableTable
  t3_dtimes :: ExtendableTable
  t3_n_overflows :: "int option"

definition T3Result_init :: "int \<Rightarrow> int \<Rightarrow> bool \<Rightarrow> T3Result" where
  "T3Result_init channel bin_factor only_bin =
     \<lparr>t3_channel = channel,
      t3_nsyncs = binnableTable_init (Some bin_factor) only_bin,
      t3_dtimes = ExtendableTable_init,
      t3_n_overflows = None\<rparr>"

definition T3_add_buffer :: "u32 list \<Rightarrow> T3Result \<Rightarrow> py_error + T3Result" where
  "T3_add_buffer buffer r =
     (case read_T3_buffer buffer (t3_channel r) ''photon'' of
        Inl e \<Rightarrow> Inl e
      | Inr (n_overflows, dtime, nsync, total_overflows) \<Rightarrow>
         (case t3_n_overflows r of
            None \<Rightarrow> Inl AttributeError
          | Some acc \<Rightarrow>
             (let n_overflows' = map (\<lambda>n. acc + uint n) n_overflows;
                  syncs = map (\<lambda>(n, s). n * T3WRAPAROUND + uint s) (zip n_overflows' nsync) in
              case add syncs (t3_nsyncs r) of
                Inl e \<Rightarrow> Inl e
              | Inr ns \<Rightarrow>
                 (case add (map uint dtime) (t3_dtimes r) of
                    Inl e \<Rightarrow> Inl e
                  | Inr dt \<Rightarrow>
                      Inr (r\<lparr>t3_nsyncs := ns, t3_dtimes := dt,
                             t3_n_overflows := Some (acc + uint total_overflows)\<rparr>)))))"

section \<open>ptu\_format.py: the tag codec and the file writer\<close>

type_synonym byte = "8 word"

text \<open>
  A Python \<^verbatim>\<open>str\<close> is held as the bytes of its UTF-8 encoding, so \<^verbatim>\<open>s.encode()\<close>
  reads the characters as bytes. The values passed for a tag are dynamically typed.
\<close>

definition encode :: "string \<Rightarrow> byte list" where
  "encode s = map (\<lambda>c. of_nat (of_char c)) s"

datatype pyval =
    VNone
  | VInt int
  | VFloat "64 word"
  | VBytes "byte list"
  | VStr string
  | VList "pyval list"

datatype tag_key = KeyId string | KeyTuple string "int option"

definition BITSLEN_MAGIC :: int where "BITSLEN_MAGIC = 8"
definition BITSLEN_VERSION :: int where "BITSLEN_VERSION = 8"
definition BITSLEN_TAG_ID :: int where "BITSLEN_TAG_ID = 32"
definition BITSLEN_TAG_IDX :: nat where "BITSLEN_TAG_IDX = 4"
definition BITSLEN_TAG_TYPECODE :: nat where "BITSLEN_TAG_TYPECODE = 4"
definition BITSLEN_TAG_VALUE :: nat where "BITSLEN_TAG_VALUE = 8"
definition TTTR_MAGIC :: string where "TTTR_MAGIC = ''PQTTTR''"
definition FILE_VERSION :: string where "FILE_VERSION = ''1.1.00''"

text \<open>The dictionaries of \<^verbatim>\<open>th260definitions.py\<close>, as association lists.\<close>

definition type_code_table :: "(string \<times> int) list" where
  "type_code_table =
     [(''Empty8'', 0xFFFF0008), (''Bool8'', 0x00000008), (''Int8'', 0x10000008),
      (''BitSet64'', 0x11000008), (''Color8'', 0x12000008), (''Float8'', 0x20000008),
      (''TDateTime'', 0x21000008), (''Float8Array'', 0x2001FFFF),
      (''ASCII-String'', 0x4001FFFF), (''Wide-String'', 0x4002FFFF),
      (''BinaryBlob'', 0xFFFFFFFF)]"

definition type_code :: "string \<rightharpoonup> int" where
  "type_code = map_of type_code_table"

definition tag_types_table :: "(string \<times> string) list" where
  "tag_types_table =
     [(''File_GUID'', ''ASCII-String''), (''Measurement_Mode'', ''Int8''),
      (''Measurement_SubMode'', ''Int8''), (''MeasDesc_GlobalResolution'', ''Float8''),
      (''MeasDesc_Resolution'', ''Float8''), (''TTResult_SyncRate'', ''Int8''),
      (''TTResult_NumberOfRecords'', ''Int8''), (''TTResultFormat_TTTRRecType'', ''Int8''),
      (''TTResultFormat_BitsPerRecord'', ''Int8''), (''CreatorSW_Name'', ''ASCII-String''),
      (''CreatorSW_Version'', ''ASCII-String''),
      (''CreatorSW_ContentVersion'', ''ASCII-String''),
      (''MeasDesc_AcquisitionTime'', ''Int8''), (''File_AssuredContent'', ''ASCII-String''),
      (''MeasDesc_StopAt'', ''Int8''), (''MeasDesc_StopOnOvfl'', ''Bool8''),
      (''MeasDesc_Restart'', ''Bool8''), (''TTResult_StopReason'', ''Int8''),
      (''TTResult_InputRate'', ''Int8''), (''File_Comment'', ''ASCII-String''),
      (''MeasDesc_BinningFactor'', ''Int8''), (''MeasDesc_Offset'', ''Int8''),
      (''HWSync_Divider'', ''Int8''), (''HWSync_Offset'', ''Int8''),
      (''HWInputChan_Offset'', ''Int8''), (''HWSync_CFDZeroCross'', ''Int8''),
      (''HWSync_CFDLevel'', ''Int8''), (''HWInputChan_CFDZeroCross'', ''Int8''),
      (''HWInputChan_CFDLevel'', ''Int8''), (''HWSync_TrgEdge'', ''Int8''),
      (''HWSync_TrgLevel'', ''Int8''), (''HWInpChan_TrgEdge'', ''Int8''),
      (''HWInpChan_TrgLevel'', ''Int8''), (''Header_End'', ''Empty8'')]"

definition tag_types :: "string \<rightharpoonup> string" where
  "tag_types = map_of tag_types_table"

text \<open>
  \<^verbatim>\<open>bstring + bytes(length - len(bstring))\<close>; \<^verbatim>\<open>bytes\<close> of a negative count raises
  \<^verbatim>\<open>ValueError\<close>.
\<close>

definition tab_string :: "byte list \<Rightarrow> int \<Rightarrow> py_error + byte list" where
  "tab_string bstring n =
     (if n - int (length bstring) < 0 then Inl ValueError
      else Inr (bstring @ replicate (nat (n - int (length bstring))) 0))"

text \<open>
  \<^verbatim>\<open>int.to_bytes(n, byteorder='little', signed=...)\<close>: \<^verbatim>\<open>OverflowError\<close> when the
  value does not fit; a negative value is written in two's complement.
\<close>

fun le_bytes :: "nat \<Rightarrow> nat \<Rightarrow> byte list" where
  "le_bytes 0 v = []"
| "le_bytes (Suc n) v = of_nat (v mod 256) # le_bytes n (v div 256)"

definition to_bytes :: "int \<Rightarrow> nat \<Rightarrow> bool \<Rightarrow> py_error + byte list" where
  "to_bytes v n is_signed =
     (if is_signed then
        if v < - (2 ^ (8 * n - 1)) \<or> 2 ^ (8 * n - 1) \<le> v then Inl OverflowError
        else Inr (le_bytes n (nat (v mod 2 ^ (8 * n))))
      else
        if v < 0 \<or> 2 ^ (8 * n) \<le> v then Inl OverflowError
        else Inr (le_bytes n (nat v)))"

text \<open>
  \<^verbatim>\<open>struct.pack("<d", v)\<close> is a floating-point conversion of the standard library: it
  is the parameter \<open>pack_d\<close> of the codec. The loop of the \<^verbatim>\<open>Float8Array\<close> branch
  packs each element of the value; only a list is iterated in the model.
\<close>

fun pack_all :: "(pyval \<Rightarrow> py_error + byte list) \<Rightarrow> pyval list \<Rightarrow> py_error + byte list" where
  "pack_all pack_d [] = Inr []"
| "pack_all pack_d (v # vs) =
     (case pack_d v of
        Inl e \<Rightarrow> Inl e
      | Inr b \<Rightarrow> (case pack_all pack_d vs of Inl e \<Rightarrow> Inl e | Inr bs \<Rightarrow> Inr (b @ bs)))"

text \<open>The payload of an array or string tag, before its length is taken.\<close>

definition array_payload ::
  "(pyval \<Rightarrow> py_error + byte list) \<Rightarrow> string \<Rightarrow> pyval \<Rightarrow> py_error + byte list" where
  "array_payload pack_d dtype v =
     (if dtype \<in> set [''ASCII-String'', ''Wide-String''] then
        (case v of VStr s \<Rightarrow> Inr (encode s) | _ \<Rightarrow> Inl AttributeError)
      else if dtype = ''Float8Array'' then
        (case v of VList vs \<Rightarrow> pack_all pack_d vs | _ \<Rightarrow> Inl TypeError)
      else
        (case v of VBytes b \<Rightarrow> Inr b | _ \<Rightarrow> Inl TypeError))"

text \<open>
  \<^verbatim>\<open>write_tag\<close> looks the type of a tag up by its id in \<^verbatim>\<open>thdef.tag_types\<close> and the
  code of the type in \<^verbatim>\<open>thdef.type_code\<close>. Both dictionaries are parameters, so that
  the codec can be stated for any registration of ids; \<open>tag_types\<close> and \<open>type_code\<close>
  above are the ones the module is shipped with.
\<close>

definition write_tag ::
  "(pyval \<Rightarrow> py_error + byte list) \<Rightarrow> (string \<rightharpoonup> string) \<Rightarrow> (string \<rightharpoonup> int) \<Rightarrow>
   tag_key \<Rightarrow> pyval \<Rightarrow> py_error + byte list" where
  "write_tag pack_d tt tc key v =
     (let (tag_id, tag_idx) = (case key of KeyTuple i x \<Rightarrow> (i, x) | KeyId i \<Rightarrow> (i, None)) in
      case tt tag_id of
        None \<Rightarrow> Inl KeyError
      | Some dtype \<Rightarrow>
     (case tab_string (encode tag_id) BITSLEN_TAG_ID of
        Inl e \<Rightarrow> Inl e
      | Inr header0 \<Rightarrow>
     (case (case tag_idx of
              Some i \<Rightarrow> to_bytes i BITSLEN_TAG_IDX False
            | None \<Rightarrow> Inr (replicate BITSLEN_TAG_IDX 0xff)) of
        Inl e \<Rightarrow> Inl e
      | Inr idx \<Rightarrow>
     (case tc dtype of
        None \<Rightarrow> Inl KeyError
      | Some code \<Rightarrow>
     (case to_bytes code BITSLEN_TAG_TYPECODE False of
        Inl e \<Rightarrow> Inl e
      | Inr codeb \<Rightarrow>
     (let header = header0 @ idx @ codeb;
          is_array = dtype \<in> set [''Float8Array'', ''ASCII-String'', ''Wide-String'', ''BinaryBlob''];
          is_string = dtype \<in> set [''ASCII-String'', ''Wide-String''] in
      if dtype = ''Empty8'' then Inr (header @ replicate BITSLEN_TAG_VALUE 0)
      else if dtype \<in> set [''Bool8'', ''Int8''] then
        (case v of
           VInt i \<Rightarrow>
             (case to_bytes i BITSLEN_TAG_VALUE True of
                Inl e \<Rightarrow> Inl e
              | Inr b \<Rightarrow> Inr (header @ b))
         | _ \<Rightarrow> Inl AttributeError)
      else if dtype = ''Float8'' then
        (case pack_d v of Inl e \<Rightarrow> Inl e | Inr b \<Rightarrow> Inr (header @ b))
      else if dtype \<in> set [''BitSet64'', ''Color8'', ''TDateTime''] then
        (case v of VBytes b \<Rightarrow> Inr (header @ b) | _ \<Rightarrow> Inl TypeError)
      else if is_array then
        (case array_payload pack_d dtype v of
           Inl e \<Rightarrow> Inl e
         | Inr payload \<Rightarrow>
            (let length0 = int (length payload);
                 length1 = (if is_string then length0 + 1 else length0);
                 length2 = length1 + (8 - length1 mod 8) mod 8 in
             case to_bytes length2 BITSLEN_TAG_VALUE False of
               Inl e \<Rightarrow> Inl e
             | Inr lb \<Rightarrow>
                (case tab_string payload length2 of
                   Inl e \<Rightarrow> Inl e
                 | Inr padded \<Rightarrow> Inr (header @ lb @ padded))))
      else Inl RuntimeError))))))"

text \<open>
  The loop of \<^verbatim>\<open>write_ptu\<close> over the tags, which appends to the header kept in memory.
  \<open>tags\<close> is the dictionary in iteration order, each key with its value.
\<close>

fun write_tags ::
  "(pyval \<Rightarrow> py_error + byte list) \<Rightarrow> (string \<rightharpoonup> string) \<Rightarrow> (string \<rightharpoonup> int) \<Rightarrow>
   byte list \<Rightarrow> (tag_key \<times> pyval) list \<Rightarrow> py_error + byte list" where
  "write_tags pack_d tt tc header [] = Inr header"
| "write_tags pack_d tt tc header ((key, v) # tags) =
     (case write_tag pack_d tt tc key v of
        Inl e \<Rightarrow> Inl e
      | Inr b \<Rightarrow> write_tags pack_d tt tc (header @ b) tags)"

text \<open>
  The file system is a map from file names to contents. \<^verbatim>\<open>write_ptu\<close> returns the
  exception, if any, and the file system it leaves. The file is opened, and so created
  or truncated, only after the whole header has been built; \<open>rawdata\<close> is the memory of
  the record array.
\<close>

definition build_header ::
  "(pyval \<Rightarrow> py_error + byte list) \<Rightarrow> (string \<rightharpoonup> string) \<Rightarrow> (string \<rightharpoonup> int) \<Rightarrow>
   (tag_key \<times> pyval) list \<Rightarrow> py_error + byte list" where
  "build_header pack_d tt tc tags =
     (case tab_string (encode TTTR_MAGIC) BITSLEN_MAGIC of
        Inl e \<Rightarrow> Inl e
      | Inr magic \<Rightarrow>
     (case tab_string (encode FILE_VERSION) BITSLEN_VERSION of
        Inl e \<Rightarrow> Inl e
      | Inr version \<Rightarrow>
     (case write_tags pack_d tt tc (magic @ version) tags of
        Inl e \<Rightarrow> Inl e
      | Inr header \<Rightarrow>
     (case write_tag pack_d tt tc (KeyId ''Header_End'') VNone of
        Inl e \<Rightarrow> Inl e
      | Inr last_tag \<Rightarrow> Inr (header @ last_tag)))))"

definition write_ptu ::
  "(pyval \<Rightarrow> py_error + byte list) \<Rightarrow> (string \<rightharpoonup> string) \<Rightarrow> (string \<rightharpoonup> int) \<Rightarrow>
   (string \<rightharpoonup> byte list) \<Rightarrow> string \<Rightarrow> byte list \<Rightarrow> (tag_key \<times> pyval) list \<Rightarrow>
   py_error option \<times> (string \<rightharpoonup> byte list)" where
  "write_ptu pack_d tt tc fs outputfilename rawdata tags =
     (case build_header pack_d tt tc tags of
        Inl e \<Rightarrow> (Some e, fs)
      | Inr header \<Rightarrow> (None, fs(outputfilename \<mapsto> header @ rawdata)))"

text \<open>
  A tag whose type the codec does not recognise: its id has no entry in the table of
  tag types, or the type it resolves to has no type code, or no branch of \<^verbatim>\<open>write_tag\<close>
  handles that type.
\<close>

definition known_dtypes :: "string list" where
  "known_dtypes =
     [''Empty8'', ''Bool8'', ''Int8'', ''Float8'', ''BitSet64'', ''Color8'', ''TDateTime'',
      ''Float8Array'', ''ASCII-String'', ''Wide-String'', ''BinaryBlob'']"

definition unrecognized :: "(string \<rightharpoonup> string) \<Rightarrow> (string \<rightharpoonup> int) \<Rightarrow> tag_key \<Rightarrow> bool" where
  "unrecognized tt tc key =
     (case tt (case key of KeyTuple i x \<Rightarrow> i | KeyId i \<Rightarrow> i) of
        None \<Rightarrow> True
      | Some dtype \<Rightarrow> tc dtype = None \<or> dtype \<notin> set known_dtypes)"

section \<open>What the specification calls an overflow record, a photon record, a prefix sum\<close>

text \<open>
  These definitions follow the words of the specification, not the code: an overflow
  record has the special bit set and the channel code \<open>0x3F\<close>, its payload is the
  low-order field; a photon record on the logical channel \<open>ch\<close> has the special bit
  clear and the channel field \<open>ch - 1\<close>.
\<close>

definition is_overflow :: "u32 \<Rightarrow> bool" where
  "is_overflow r \<longleftrightarrow> rec_special r = 1 \<and> rec_channel r = 0x3F"

definition is_photon :: "int \<Rightarrow> u32 \<Rightarrow> bool" where
  "is_photon ch r \<longleftrightarrow> rec_special r = 0 \<and> int (rec_channel r) + 1 = ch"

definition photons_at :: "int \<Rightarrow> u32 list \<Rightarrow> nat list" where
  "photons_at ch buf = filter (\<lambda>p. is_photon ch (buf ! p)) [0 ..< length buf]"

definition T2_payload_sum :: "u32 list \<Rightarrow> nat" where
  "T2_payload_sum buf = sum_list (map rec_timetag (filter is_overflow buf))"

definition T3_payload_sum :: "u32 list \<Rightarrow> nat" where
  "T3_payload_sum buf = sum_list (map rec_nsync (filter is_overflow buf))"

section \<open>Results\<close>

subsection \<open>The concrete T2 scenario\<close>

text \<open>
  Claim C5. Decoding the buffer \<open>[0x00000005, 0xFE000003, 0x00000010]\<close> in T2 mode for
  channel 1 gives the timetags 5 and 16 with the overflow counts 0 and 3 and the total
  overflow 3; after \<^verbatim>\<open>add_buffer\<close> on a new \<^verbatim>\<open>T2Result\<close> of channel 1 the stored
  timestamps are 5 and \<open>3 * 0x2000000 + 16\<close>, and the accumulator is 3.
\<close>

theorem T2_scenario:
  "read_T2_buffer [0x00000005, 0xFE000003, 0x00000010] 1 ''photon'' = Inr ([0, 3], [5, 16], 3) \<and>
   (case T2_add_buffer [0x00000005, 0xFE000003, 0x00000010] (T2Result_init 1 bin_factor only_bin) of
      Inl e \<Rightarrow> False
    | Inr r \<Rightarrow> T2_timetags r = [5, 3 * 0x2000000 + 16] \<and> t2_n_overflows r = 3)"
  by code_simp

subsection \<open>The empty buffer\<close>

text \<open>
  Claim C10. On a buffer of no records both buffer decoders raise: with a record kind
  they know, the \<^verbatim>\<open>IndexError\<close> of reading the last element of the empty cumulative
  sum; with any other kind, the \<^verbatim>\<open>RuntimeError\<close> of the kind. They never return empty
  arrays and a total of 0.
\<close>

theorem empty_buffer_raises:
  "read_T2_buffer [] channel rtype =
     Inl (if rtype = ''photon'' \<or> rtype = ''marker'' \<or> rtype = ''sync''
          then IndexError else RuntimeError) \<and>
   read_T3_buffer [] channel rtype =
     Inl (if rtype = ''photon'' \<or> rtype = ''marker'' then IndexError else RuntimeError)"
  by (simp add: read_T2_buffer_def read_T3_buffer_def T2_bit_selected_def T3_bit_selected_def
      np_cumsum_def mul_mask_def np_last_def)

subsection \<open>Records in the reserved gap\<close>

text \<open>
  Claim C2. The record \<open>0xA2000000\<close> has the special bit set and the channel code 17, in
  the reserved gap. The per-record decoders raise on it. The buffer decoders, asked for
  the photons of channel 1, return normally with nothing selected: the record is dropped
  without an error, in T2 and in T3 mode.
\<close>

theorem reserved_record_dropped:
  "rec_special 0xA2000000 = 1 \<and> rec_channel 0xA2000000 = 17 \<and>
   read_T2_record 0xA2000000 = Inl RuntimeError \<and>
   read_T3_record 0xA2000000 = Inl RuntimeError \<and>
   read_T2_buffer [0xA2000000] 1 ''photon'' = Inr ([], [], 0) \<and>
   read_T3_buffer [0xA2000000] 1 ''photon'' = Inr ([], [], [], 0)"
  by code_simp

subsection \<open>Marker selection\<close>

text \<open>
  Claim C6. The record \<open>0x82000007\<close> is a marker record of channel code 1 with the
  low-order field 7, as the per-record decoder says. Decoding the one-record buffer
  with kind \<^verbatim>\<open>'marker'\<close> and channel 1 selects nothing, in T2 and in T3 mode: the
  selector \<^verbatim>\<open>0x80000000 + channel << 25\<close> is \<open>(0x80000000 + channel) * 2 ^ 25\<close>, which no
  32-bit header equals.
\<close>

theorem marker_selects_nothing:
  "read_T2_record 0x82000007 = Inr (''marker'', 1, 7) \<and>
   T2_bit_selected 1 ''marker'' = Inr 0x100000002000000 \<and>
   read_T2_buffer [0x82000007] 1 ''marker'' = Inr ([], [], 0) \<and>
   read_T3_buffer [0x82000007] 1 ''marker'' = Inr ([], [], [], 0)"
  by code_simp

subsection \<open>The overflow accumulator of a channel result\<close>

text \<open>
  Claim C4. A new \<^verbatim>\<open>T3Result\<close> has no overflow accumulator: its constructor never
  assigns \<^verbatim>\<open>_n_overflows\<close>, so the first \<^verbatim>\<open>add_buffer\<close> on a buffer of one photon
  record raises \<^verbatim>\<open>AttributeError\<close>. The constructor of \<^verbatim>\<open>T2Result\<close> sets it to 0.
\<close>

theorem T3_accumulator_missing:
  "t2_n_overflows (T2Result_init 1 (Some 1) False) = 0 \<and>
   t3_n_overflows (T3Result_init 1 1 False) = None \<and>
   T3_add_buffer [0x00000005] (T3Result_init 1 1 False) = Inl AttributeError"
  by code_simp

subsection \<open>Incremental binning\<close>

text \<open>
  Claim C1. With the bin factor 1, adding \<open>[5]\<close>, counting, adding \<open>[0]\<close> and counting
  again raises \<^verbatim>\<open>ValueError\<close>: the second tally \<open>[1]\<close> is shorter than the retained
  counts \<open>[0, 0, 0, 0, 0, 1]\<close>, and \<^verbatim>\<open>bin_count[:6] += counts\<close> adds six numbers onto a
  view of one. Adding \<open>[5, 0]\<close> and counting once returns \<open>[1, 0, 0, 0, 0, 1]\<close>.
\<close>

theorem bin_count_shorter_tally:
  "bin_incremental (binnableTable_init (Some 1) False) [5] [0] = Inl ValueError \<and>
   bin_batch (binnableTable_init (Some 1) False) ([5] @ [0]) = Inr [1, 0, 0, 0, 0, 1]"
  by code_simp

end
